theory Spec2Isabelle
  imports Main "HOL-Library.Word"
begin

section \<open>Data model (types.ts)\<close>

text \<open>
  A JavaScript string is a sequence of UTF-16 code units. Literals of the source that are
  plain ASCII are written through \<open>js\<close>; other characters are given by their code unit.
\<close>

type_synonym jsstring = "16 word list"

definition js :: "string \<Rightarrow> jsstring" where
  "js s = map of_char s"

text \<open>\<^verbatim>\<open>export enum GameState { Lobby, Waiting, Game, RoundEnd }\<close>\<close>

datatype GameState = Lobby | Waiting | Game | RoundEnd

text \<open>
  \<^verbatim>\<open>interface Player { id: string; username: string; score: number; }\<close>
  The fields carry the prefix \<open>player_\<close> (\<open>id\<close> is a constant of HOL, and \<open>username\<close> is
  also a state variable of the component). Scores are integers.
\<close>

record Player =
  player_id :: jsstring
  player_username :: jsstring
  player_score :: int

text \<open>
  \<^verbatim>\<open>interface ChatMessage { username: string; message: string;
     isSystemMessage?: boolean; isCorrectGuess?: boolean; }\<close>
  An optional field is \<open>None\<close> when absent.
\<close>

record ChatMessage =
  msg_username :: jsstring
  msg_message :: jsstring
  isSystemMessage :: "bool option"
  isCorrectGuess :: "bool option"

text \<open>
  \<^verbatim>\<open>interface DrawData { from: {x; y}; to: {x; y}; color: string; lineWidth: number; }\<close>
  The component never computes with a stroke: it only passes it on.
\<close>

record point =
  pt_x :: int
  pt_y :: int

record DrawData =
  draw_from :: point
  draw_to :: point
  draw_color :: jsstring
  draw_lineWidth :: int

section \<open>The component state of App (App.tsx, lines 108-123)\<close>

text \<open>The payload of \<open>roundEnd\<close> and the type of the state variable \<open>roundResult\<close>:
  \<^verbatim>\<open>{ winner?: Player; word: string }\<close>.\<close>

record round_result =
  rr_winner :: "Player option"
  rr_word :: jsstring

text \<open>The payload of \<open>newRound\<close>, destructured as \<^verbatim>\<open>{ drawerId, word, time }\<close>; the drawer id
  has the type of the state variable it is stored in, \<^verbatim>\<open>string | null\<close>.\<close>

record new_round =
  nr_drawerId :: "jsstring option"
  nr_word :: jsstring
  nr_time :: int

text \<open>Of the socket the component reads only \<open>id\<close>, which socket.io leaves undefined while
  the socket is not connected.\<close>

record Socket =
  socket_id :: "jsstring option"

text \<open>What the component sends: \<^verbatim>\<open>socket.emit(name, payload)\<close>.\<close>

datatype client_msg =
    JoinGame jsstring
  | Drawing DrawData
  | ClearCanvas
  | ChatMessageOut jsstring
  | ReadyForNextRound

text \<open>
  The Canvas component is not part of the sources at hand; the component reaches it only
  through \<open>canvasRef.current\<close>, by the two methods \<open>clear\<close> and \<open>drawFromServer\<close>. The canvas
  is therefore represented by the calls made on it, oldest first, and \<open>canvasRef.current\<close>
  is \<open>None\<close> while no canvas is mounted. The canvas is rendered on the Game screen only
  (line 239): React sets \<open>canvasRef.current\<close> when the canvas is mounted and resets it to
  null when the canvas is unmounted.
\<close>

datatype canvas_call = Clear | DrawFromServer DrawData

record App =
  socket :: "Socket option"
  gameState :: GameState
  players :: "Player list"
  messages :: "ChatMessage list"
  currentWord :: jsstring
  timeLeft :: int
  currentDrawerId :: "jsstring option"
  username :: jsstring
  roundResult :: "round_result option"
  drawColor :: jsstring
  lineWidth :: int
  canvasRef :: "canvas_call list option"

text \<open>The initial values of the \<open>useState\<close> and \<open>useRef\<close> calls.\<close>

definition initial :: App where
  "initial = \<lparr> socket = None, gameState = Lobby, players = [], messages = [],
     currentWord = [], timeLeft = 0, currentDrawerId = None, username = [],
     roundResult = None, drawColor = js ''#111827'', lineWidth = 4, canvasRef = None \<rparr>"

text \<open>
  The effect of the first render creates the socket, not yet connected, and stores it:
  \<^verbatim>\<open>const newSocket = io(SERVER_URL); setSocket(newSocket);\<close>
\<close>

definition started :: App where
  "started = initial\<lparr>socket := Some \<lparr> socket_id = None \<rparr>\<rparr>"

text \<open>\<^verbatim>\<open>socket?.id\<close>: undefined when there is no socket or the socket has no id.\<close>

definition own_id :: "App \<Rightarrow> jsstring option" where
  "own_id st = (case socket st of None \<Rightarrow> None | Some s \<Rightarrow> socket_id s)"

text \<open>
  \<^verbatim>\<open>const isDrawer = socket?.id === currentDrawerId;\<close>
  Strict equality: an undefined left-hand side is different from a string and from null.
  The constant belongs to one render: \<open>isDrawer st\<close> is its value in a render of the state
  \<open>st\<close>. The id of the socket is a property of the socket object and not a state variable,
  so a change of the id alone causes no render (see \<open>client\<close> below).
\<close>

definition isDrawer :: "App \<Rightarrow> bool" where
  "isDrawer st =
     (case own_id st of None \<Rightarrow> False | Some i \<Rightarrow> currentDrawerId st = Some i)"

text \<open>\<^verbatim>\<open>canvasRef.current?.m(...)\<close>: the call is made when a canvas is mounted.\<close>

definition canvas_invoke :: "canvas_call \<Rightarrow> canvas_call list option \<Rightarrow> canvas_call list option" where
  "canvas_invoke c r = (case r of None \<Rightarrow> None | Some cs \<Rightarrow> Some (cs @ [c]))"

text \<open>\<^verbatim>\<open>socket?.emit(...)\<close>: the message is sent when there is a socket.\<close>

definition emit_opt :: "Socket option \<Rightarrow> client_msg \<Rightarrow> client_msg list" where
  "emit_opt s m = (case s of None \<Rightarrow> [] | Some _ \<Rightarrow> [m])"

section \<open>String.prototype.trim\<close>

text \<open>
  The code units that \<open>trim\<close> removes: the WhiteSpace and LineTerminator productions of
  ECMAScript (tab, line feed, vertical tab, form feed, carriage return, space, no-break
  space, the space separators of Unicode, line and paragraph separator, byte order mark).
\<close>

definition is_whitespace :: "16 word \<Rightarrow> bool" where
  "is_whitespace c =
     (c = 0x9 \<or> c = 0xA \<or> c = 0xB \<or> c = 0xC \<or> c = 0xD \<or> c = 0x20 \<or> c = 0xA0 \<or>
      c = 0x1680 \<or> (0x2000 \<le> c \<and> c \<le> 0x200A) \<or> c = 0x2028 \<or> c = 0x2029 \<or>
      c = 0x202F \<or> c = 0x205F \<or> c = 0x3000 \<or> c = 0xFEFF)"

definition trim :: "jsstring \<Rightarrow> jsstring" where
  "trim s = rev (dropWhile is_whitespace (rev (dropWhile is_whitespace s)))"

section \<open>Handlers of server events (App.tsx, lines 125-154)\<close>

text \<open>
  \<^verbatim>\<open>${players.find(p => p.id === drawerId)?.username} r\<dots>\<close>: the name of the first player with
  the drawer's id, or the text \<open>undefined\<close> when there is none, followed by the fixed text
  of the announcement (\<open>U+0259\<close> and \<open>U+00E7\<close> are its two non-ASCII letters).
\<close>

definition drawer_name :: "Player list \<Rightarrow> jsstring option \<Rightarrow> jsstring" where
  "drawer_name ps drawerId =
     (case find (\<lambda>p. Some (player_id p) = drawerId) ps of
        None \<Rightarrow> js ''undefined''
      | Some p \<Rightarrow> player_username p)"

definition announcement_text :: jsstring where
  "announcement_text = js '' r'' @ [0x259] @ js ''sm '' @ [0xE7, 0x259] @ js ''kir...''"

definition announcement :: "Player list \<Rightarrow> jsstring option \<Rightarrow> ChatMessage" where
  "announcement ps drawerId =
     \<lparr> msg_username = js ''System'',
       msg_message = drawer_name ps drawerId @ announcement_text,
       isSystemMessage = Some True,
       isCorrectGuess = None \<rparr>"

text \<open>
  A handler that sets \<open>gameState\<close> is followed by a render that may show another screen.
  The canvas belongs to the Game screen: entering it mounts a fresh canvas, on which no
  call has been made yet; staying on it keeps the canvas; any other screen has none.
\<close>

definition commit :: "App \<Rightarrow> App" where
  "commit st =
     st\<lparr>canvasRef :=
          (if gameState st = Game
           then (case canvasRef st of None \<Rightarrow> Some [] | Some cs \<Rightarrow> Some cs)
           else None)\<rparr>"

text \<open>\<^verbatim>\<open>newSocket.on('gameState', (state) => setGameState(state));\<close>\<close>

definition on_gameState :: "GameState \<Rightarrow> App \<Rightarrow> App" where
  "on_gameState state st = commit (st\<lparr>gameState := state\<rparr>)"

text \<open>\<^verbatim>\<open>newSocket.on('updatePlayers', (players) => setPlayers(players));\<close>\<close>

definition on_updatePlayers :: "Player list \<Rightarrow> App \<Rightarrow> App" where
  "on_updatePlayers ps st = st\<lparr>players := ps\<rparr>"

text \<open>\<^verbatim>\<open>newSocket.on('chatMessage', (msg) => setMessages(prev => [...prev, msg]));\<close>\<close>

definition on_chatMessage :: "ChatMessage \<Rightarrow> App \<Rightarrow> App" where
  "on_chatMessage msg st = st\<lparr>messages := messages st @ [msg]\<rparr>"

text \<open>
  The handler of \<open>newRound\<close> (lines 135-142). It reads \<open>players\<close>; the first argument is the
  value of \<open>players\<close> in the render whose effect registered the handler. The call of
  \<open>clear\<close> is made by the handler, on the canvas mounted when the event arrives (if any);
  the render that shows the Game screen comes after it.
\<close>

definition on_newRound :: "Player list \<Rightarrow> new_round \<Rightarrow> App \<Rightarrow> App" where
  "on_newRound captured p st =
     commit
       (st\<lparr> gameState := Game,
           currentDrawerId := nr_drawerId p,
           currentWord := nr_word p,
           timeLeft := nr_time p,
           messages := [announcement captured (nr_drawerId p)],
           canvasRef := canvas_invoke Clear (canvasRef st) \<rparr>)"

text \<open>\<^verbatim>\<open>newSocket.on('timer', (time) => setTimeLeft(time));\<close>\<close>

definition on_timer :: "int \<Rightarrow> App \<Rightarrow> App" where
  "on_timer time st = st\<lparr>timeLeft := time\<rparr>"

text \<open>\<^verbatim>\<open>newSocket.on('drawing', (data) => canvasRef.current?.drawFromServer(data));\<close>\<close>

definition on_drawing :: "DrawData \<Rightarrow> App \<Rightarrow> App" where
  "on_drawing data st = st\<lparr>canvasRef := canvas_invoke (DrawFromServer data) (canvasRef st)\<rparr>"

text \<open>\<^verbatim>\<open>newSocket.on('clearCanvas', () => canvasRef.current?.clear());\<close>\<close>

definition on_clearCanvas :: "App \<Rightarrow> App" where
  "on_clearCanvas st = st\<lparr>canvasRef := canvas_invoke Clear (canvasRef st)\<rparr>"

text \<open>The handler of \<open>roundEnd\<close> (lines 148-151).\<close>

definition on_roundEnd :: "round_result \<Rightarrow> App \<Rightarrow> App" where
  "on_roundEnd result st = commit (st\<lparr>gameState := RoundEnd, roundResult := Some result\<rparr>)"

text \<open>
  \<^verbatim>\<open>newSocket.on('connect', () => console.log('Connected to server! ID:', newSocket.id));\<close>
  At every connection, the first and each reconnection, socket.io gives the socket a new
  id; the handler only writes it to the console. No state variable is set.
\<close>

definition on_connect :: "jsstring \<Rightarrow> App \<Rightarrow> App" where
  "on_connect new_id st = st\<lparr>socket := map_option (\<lambda>s. s\<lparr>socket_id := Some new_id\<rparr>) (socket st)\<rparr>"

text \<open>
  The events the component listens to. The effect that registers the handlers has the
  dependency list \<open>[]\<close>: it runs once, after the first render, so the \<open>players\<close> its
  closures read is the initial one.
\<close>

datatype server_event =
    Connect jsstring
  | GameStateEv GameState
  | UpdatePlayers "Player list"
  | ChatMessageEv ChatMessage
  | NewRound new_round
  | Timer int
  | DrawingEv DrawData
  | ClearCanvasEv
  | RoundEndEv round_result

fun receive :: "server_event \<Rightarrow> App \<Rightarrow> App" where
  "receive (Connect new_id) st = on_connect new_id st"
| "receive (GameStateEv state) st = on_gameState state st"
| "receive (UpdatePlayers ps) st = on_updatePlayers ps st"
| "receive (ChatMessageEv msg) st = on_chatMessage msg st"
| "receive (NewRound p) st = on_newRound (players initial) p st"
| "receive (Timer time) st = on_timer time st"
| "receive (DrawingEv data) st = on_drawing data st"
| "receive ClearCanvasEv st = on_clearCanvas st"
| "receive (RoundEndEv result) st = on_roundEnd result st"

text \<open>A sequence of events, handled in the order of arrival.\<close>

definition receive_all :: "server_event list \<Rightarrow> App \<Rightarrow> App" where
  "receive_all evs st = foldl (\<lambda>s ev. receive ev s) st evs"

section \<open>Handlers of user actions (App.tsx, lines 156-184)\<close>

text \<open>
  Each returns the messages emitted on the socket and the next state. A handler is a
  closure of the last render. The state variables it reads are the current ones, since a
  state variable changes only together with a render. \<open>isDrawer\<close> is different: it was
  computed in that render from the id the socket had then. The handlers that read it take
  the state the last render saw as their first argument.

  The join button exists on the Lobby screen only and the next-round button on the
  RoundEnd screen only; neither screen has a canvas, nor has the Waiting screen they lead
  to.
\<close>

text \<open>\<^verbatim>\<open>onChange={(e) => setUsername(e.target.value)}\<close> (line 198).\<close>

definition handleUsernameChange :: "jsstring \<Rightarrow> App \<Rightarrow> App" where
  "handleUsernameChange v st = st\<lparr>username := v\<rparr>"

definition handleJoinGame :: "App \<Rightarrow> client_msg list \<times> App" where
  "handleJoinGame st =
     (if trim (username st) \<noteq> [] \<and> socket st \<noteq> None
      then ([JoinGame (trim (username st))], st\<lparr>gameState := Waiting\<rparr>)
      else ([], st))"

definition handleDraw :: "App \<Rightarrow> DrawData \<Rightarrow> App \<Rightarrow> client_msg list \<times> App" where
  "handleDraw rendered data st =
     (if socket rendered \<noteq> None \<and> isDrawer rendered then ([Drawing data], st) else ([], st))"

definition handleSendMessage :: "jsstring \<Rightarrow> App \<Rightarrow> client_msg list \<times> App" where
  "handleSendMessage message st = (emit_opt (socket st) (ChatMessageOut message), st)"

definition handleClearCanvas :: "App \<Rightarrow> App \<Rightarrow> client_msg list \<times> App" where
  "handleClearCanvas rendered st =
     (if isDrawer rendered
      then (emit_opt (socket rendered) ClearCanvas,
            st\<lparr>canvasRef := canvas_invoke Clear (canvasRef st)\<rparr>)
      else ([], st))"

definition handleReadyForNext :: "App \<Rightarrow> client_msg list \<times> App" where
  "handleReadyForNext st =
     (emit_opt (socket st) ReadyForNextRound,
      st\<lparr>roundResult := None, gameState := Waiting\<rparr>)"

section \<open>What is rendered (renderContent, lines 186-248)\<close>

text \<open>
  \<^verbatim>\<open>players.find(p => p.id === socket?.id)?.score\<close>: the score of the first player whose id
  is the socket's, undefined when the socket has no id or there is no such player.
\<close>

definition own_score :: "App \<Rightarrow> int option" where
  "own_score st =
     (case own_id st of
        None \<Rightarrow> None
      | Some i \<Rightarrow> map_option player_score (find (\<lambda>p. player_id p = i) (players st)))"

text \<open>One line of PlayerList: the pencil is shown for the drawer.\<close>

record player_row =
  row_pencil :: bool
  row_username :: jsstring
  row_score :: int

definition PlayerList :: "Player list \<Rightarrow> jsstring option \<Rightarrow> player_row list" where
  "PlayerList ps drawerId =
     map (\<lambda>p. \<lparr> row_pencil = (Some (player_id p) = drawerId),
                row_username = player_username p,
                row_score = player_score p \<rparr>) ps"

text \<open>
  The data each screen shows. Lobby: the name typed so far. RoundEnd: the winner's name
  (or none: the time-out headline), the word of the round result and the own score.
  Game: the player list, the time, the word, the own score (0 when undefined), whether
  drawing is enabled, the colour and width of the tools (shown to the drawer only) and
  the chat messages, first to last.
\<close>

record game_view =
  gv_players :: "player_row list"
  gv_time :: int
  gv_word :: jsstring
  gv_score :: int
  gv_drawingEnabled :: bool
  gv_tools :: "(jsstring \<times> int) option"
  gv_chat :: "ChatMessage list"

datatype view =
    LobbyView jsstring
  | WaitingView
  | RoundEndView "jsstring option" "jsstring option" "int option"
  | GameView game_view

definition renderContent :: "App \<Rightarrow> view" where
  "renderContent st =
     (case gameState st of
        Lobby \<Rightarrow> LobbyView (username st)
      | Waiting \<Rightarrow> WaitingView
      | RoundEnd \<Rightarrow>
          RoundEndView
            (case roundResult st of
               None \<Rightarrow> None
             | Some r \<Rightarrow> map_option player_username (rr_winner r))
            (map_option rr_word (roundResult st))
            (own_score st)
      | Game \<Rightarrow>
          GameView
            \<lparr> gv_players = PlayerList (players st) (currentDrawerId st),
              gv_time = timeLeft st,
              gv_word = currentWord st,
              gv_score = (case own_score st of None \<Rightarrow> 0 | Some n \<Rightarrow> n),
              gv_drawingEnabled = isDrawer st,
              gv_tools = (if isDrawer st then Some (drawColor st, lineWidth st) else None),
              gv_chat = messages st \<rparr>)"

text \<open>The secret word as the screen shows it: the Game screen shows \<open>currentWord\<close>, the
  RoundEnd screen the word of the round result, the other screens none.\<close>

fun shown_word :: "view \<Rightarrow> jsstring option" where
  "shown_word (LobbyView _) = None"
| "shown_word WaitingView = None"
| "shown_word (RoundEndView _ w _) = w"
| "shown_word (GameView g) = Some (gv_word g)"

fun shown_chat :: "view \<Rightarrow> ChatMessage list" where
  "shown_chat (GameView g) = gv_chat g"
| "shown_chat _ = []"

section \<open>The client: the state now and the state of the last render\<close>

text \<open>
  What the user sees and the handlers the user can trigger belong to the last render.
  A render follows a handler that sets a state variable to a new value: a fresh array or
  object always is one, a number or phase equal to the present one is not. The handlers of
  \<open>connect\<close>, \<open>drawing\<close> and \<open>clearCanvas\<close> set nothing.
\<close>

record client =
  rendered :: App
  current :: App

fun rerenders :: "server_event \<Rightarrow> App \<Rightarrow> bool" where
  "rerenders (Connect _) st = False"
| "rerenders (DrawingEv _) st = False"
| "rerenders ClearCanvasEv st = False"
| "rerenders (GameStateEv state) st = (state \<noteq> gameState st)"
| "rerenders (Timer time) st = (time \<noteq> timeLeft st)"
| "rerenders (UpdatePlayers _) st = True"
| "rerenders (ChatMessageEv _) st = True"
| "rerenders (NewRound _) st = True"
| "rerenders (RoundEndEv _) st = True"

definition client_receive :: "server_event \<Rightarrow> client \<Rightarrow> client" where
  "client_receive ev c =
     \<lparr> rendered = (if rerenders ev (current c) then receive ev (current c) else rendered c),
       current = receive ev (current c) \<rparr>"

definition client_receive_all :: "server_event list \<Rightarrow> client \<Rightarrow> client" where
  "client_receive_all evs c = foldl (\<lambda>c ev. client_receive ev c) c evs"

text \<open>The client once the socket has been created and stored.\<close>

definition client_start :: client where
  "client_start = \<lparr> rendered = started, current = started \<rparr>"

section \<open>Observations on runs\<close>


text \<open>A canvas is mounted exactly on the Game screen.\<close>

definition canvas_on_Game :: "App \<Rightarrow> bool" where
  "canvas_on_Game st = ((canvasRef st \<noteq> None) = (gameState st = Game))"

text \<open>The chat message an event carries, and whether an event starts a round.\<close>

fun chat_of :: "server_event \<Rightarrow> ChatMessage list" where
  "chat_of (ChatMessageEv m) = [m]"
| "chat_of _ = []"

fun is_newRound :: "server_event \<Rightarrow> bool" where
  "is_newRound (NewRound _) = True"
| "is_newRound _ = False"

text \<open>The drawing tools as a screen shows them (the clear button is one of them).\<close>

fun shown_tools :: "view \<Rightarrow> (jsstring \<times> int) option" where
  "shown_tools (GameView g) = gv_tools g"
| "shown_tools _ = None"

section \<open>Example states\<close>

text \<open>
  Two players, Alice and Bob; the component runs in Alice's browser (her socket id is
  \<open>id-a\<close>). The states below are hers in the lobby (having typed her name with blanks
  around it: space, \<open>Al B\<close>, no-break space, tab), waiting, in a round Bob draws after one
  stroke of his has arrived, and at the end of a round.
\<close>

definition alice :: Player where
  "alice = \<lparr> player_id = js ''id-a'', player_username = js ''Alice'', player_score = 0 \<rparr>"

definition bob :: Player where
  "bob = \<lparr> player_id = js ''id-b'', player_username = js ''Bob'', player_score = 100 \<rparr>"

definition stroke :: DrawData where
  "stroke = \<lparr> draw_from = \<lparr> pt_x = 0, pt_y = 0 \<rparr>, draw_to = \<lparr> pt_x = 3, pt_y = 4 \<rparr>,
       draw_color = js ''#111827'', draw_lineWidth = 4 \<rparr>"

definition alice_lobby :: App where
  "alice_lobby = initial\<lparr> socket := Some \<lparr> socket_id = Some (js ''id-a'') \<rparr>,
       username := [0x20, 0x41, 0x6C, 0x20, 0x42, 0xA0, 0x9] \<rparr>"

definition alice_waiting :: App where
  "alice_waiting = initial\<lparr> socket := Some \<lparr> socket_id = Some (js ''id-a'') \<rparr>,
       gameState := Waiting, players := [alice, bob], username := js ''Alice'' \<rparr>"

definition alice_round_end :: App where
  "alice_round_end = alice_waiting\<lparr> gameState := RoundEnd,
       roundResult := Some \<lparr> rr_winner = Some bob, rr_word = js ''apple'' \<rparr> \<rparr>"

text \<open>Rounds in which Bob, or Alice, draws the word \<open>apple\<close>, and the end of such a round,
  won by Bob.\<close>

definition bob_draws :: new_round where
  "bob_draws = \<lparr> nr_drawerId = Some (js ''id-b''), nr_word = js ''apple'', nr_time = 60 \<rparr>"

definition alice_draws :: new_round where
  "alice_draws = \<lparr> nr_drawerId = Some (js ''id-a''), nr_word = js ''apple'', nr_time = 60 \<rparr>"

definition bob_wins :: round_result where
  "bob_wins = \<lparr> rr_winner = Some bob, rr_word = js ''apple'' \<rparr>"


text \<open>
  A run of the client from its start: the socket connects as \<open>id-a\<close>, the player list
  arrives, a round starts in which Alice draws, and then the socket reconnects, now as
  \<open>id-c\<close>.
\<close>

definition alice_reconnected :: client where
  "alice_reconnected =
     client_receive_all
       [Connect (js ''id-a''), UpdatePlayers [alice, bob], NewRound alice_draws,
        Connect (js ''id-c'')]
       client_start"

section \<open>Basic facts\<close>

text \<open>
  In a render in which \<open>isDrawer\<close> holds there is a socket, it has an id, and the id is
  the current drawer id.
\<close>

lemma isDrawer_iff: "isDrawer st \<longleftrightarrow> (\<exists>i. own_id st = Some i \<and> currentDrawerId st = Some i)"
  by (auto simp: isDrawer_def split: option.splits)

lemma isDrawer_socket: "isDrawer st \<Longrightarrow> socket st \<noteq> None"
  by (auto simp: isDrawer_def own_id_def split: option.splits)

text \<open>
  What \<open>trim\<close> returns is empty exactly when every code unit is white space; otherwise it
  begins and ends with a code unit that is not white space, and trimming it again changes
  nothing.
\<close>

lemma last_dropWhile: "dropWhile P xs \<noteq> [] \<Longrightarrow> last (dropWhile P xs) = last xs"
  by (induction xs) (auto split: if_splits)

lemma trim_Nil_iff: "trim s = [] \<longleftrightarrow> (\<forall>c\<in>set s. is_whitespace c)"
proof -
  let ?t = "dropWhile is_whitespace s"
  have "trim s = [] \<longleftrightarrow> (\<forall>c\<in>set ?t. is_whitespace c)"
    by (simp add: trim_def dropWhile_eq_Nil_conv)
  also have "\<dots> \<longleftrightarrow> ?t = []"
  proof
    assume all: "\<forall>c\<in>set ?t. is_whitespace c"
    show "?t = []"
    proof (rule ccontr)
      assume ne: "?t \<noteq> []"
      then have "\<not> is_whitespace (hd ?t)" by (rule hd_dropWhile)
      moreover from ne have "hd ?t \<in> set ?t" by simp
      ultimately show False using all by blast
    qed
  next
    assume "?t = []"
    then show "\<forall>c\<in>set ?t. is_whitespace c" by (simp only: list.set ball_empty)
  qed
  also have "\<dots> \<longleftrightarrow> (\<forall>c\<in>set s. is_whitespace c)"
    by (simp add: dropWhile_eq_Nil_conv)
  finally show ?thesis .
qed

lemma trim_ends:
  assumes "trim s \<noteq> []"
  shows "\<not> is_whitespace (hd (trim s))" and "\<not> is_whitespace (last (trim s))"
proof -
  let ?t = "dropWhile is_whitespace s"
  let ?u = "dropWhile is_whitespace (rev ?t)"
  from assms have u: "?u \<noteq> []" by (simp add: trim_def)
  then have t: "?t \<noteq> []" by (metis dropWhile.simps(1) rev.simps(1))
  have "hd (trim s) = last ?u" using u by (simp add: trim_def hd_rev)
  also have "\<dots> = last (rev ?t)" using u by (rule last_dropWhile)
  also have "\<dots> = hd ?t" using t by (simp add: last_rev)
  finally have "hd (trim s) = hd ?t" .
  with hd_dropWhile[OF t] show "\<not> is_whitespace (hd (trim s))" by simp
  have "last (trim s) = hd ?u" using u by (simp add: trim_def last_rev)
  with hd_dropWhile[OF u] show "\<not> is_whitespace (last (trim s))" by simp
qed

lemma trim_idem: "trim (trim s) = trim s"
proof (cases "trim s = []")
  case True
  have "trim [] = []" by (simp add: trim_def)
  with True show ?thesis by simp
next
  case False
  let ?r = "trim s"
  from trim_ends[OF False] have h: "\<not> is_whitespace (hd ?r)" and l: "\<not> is_whitespace (last ?r)" .
  from False h have 1: "dropWhile is_whitespace ?r = ?r"
    by (cases ?r) auto
  from False l have 2: "dropWhile is_whitespace (rev ?r) = rev ?r"
    by (cases "rev ?r") (auto simp: last_rev[symmetric] simp del: last_rev)
  show ?thesis
    unfolding trim_def[of "trim s"] 1 2 by simp
qed

text \<open>
  The handler of \<open>newRound\<close> looks the drawer up in the player list of the first render,
  which is empty: the name it finds is the text \<open>undefined\<close>, whoever draws. A lookup in
  the current player list finds the drawer's name.
\<close>

lemma drawer_name_initial: "drawer_name (players initial) d = js ''undefined''"
  by (simp add: drawer_name_def initial_def)

lemma drawer_name_found:
  "drawer_name [alice, bob] (Some (js ''id-b'')) = js ''Bob'' \<and>
   drawer_name [alice, bob] (Some (js ''id-a'')) = js ''Alice'' \<and>
   drawer_name [alice, bob] None = js ''undefined''"
  by (simp add: drawer_name_def alice_def bob_def js_def)

lemma newRound_messages:
  "messages (receive (NewRound p) st) =
     [\<lparr> msg_username = js ''System'', msg_message = js ''undefined'' @ announcement_text,
        isSystemMessage = Some True, isCorrectGuess = None \<rparr>]"
  by (simp add: on_newRound_def commit_def announcement_def drawer_name_initial)

text \<open>
  Chat messages accumulate in the order of arrival, also when other events (none of
  them a new round) arrive in between.
\<close>

lemma receive_all_chat: "receive_all (map ChatMessageEv ms) st = st\<lparr>messages := messages st @ ms\<rparr>"
  unfolding receive_all_def
  by (induction ms arbitrary: st) (simp_all add: on_chatMessage_def)

lemma receive_messages_no_newRound:
  "\<not> is_newRound ev \<Longrightarrow> messages (receive ev st) = messages st @ chat_of ev"
  by (cases ev)
     (simp_all add: on_gameState_def on_updatePlayers_def on_chatMessage_def on_timer_def
        on_drawing_def on_clearCanvas_def on_roundEnd_def on_connect_def commit_def)

lemma chat_order_between_rounds:
  "list_all (\<lambda>ev. \<not> is_newRound ev) evs \<Longrightarrow>
   messages (receive_all evs st) = messages st @ concat (map chat_of evs)"
  unfolding receive_all_def
  by (induction evs arbitrary: st) (simp_all add: receive_messages_no_newRound)

text \<open>
  The canvas is mounted exactly on the Game screen: so it is at the start, and every
  event and every user action keeps it so (the join button is on the Lobby screen, the
  next-round button on the RoundEnd screen).
\<close>

lemma canvas_on_Game_started: "canvas_on_Game started"
  by (simp add: canvas_on_Game_def started_def initial_def)

lemma canvas_on_Game_receive: "canvas_on_Game st \<Longrightarrow> canvas_on_Game (receive ev st)"
  by (cases ev)
     (auto simp: canvas_on_Game_def canvas_invoke_def on_gameState_def on_updatePlayers_def
        on_chatMessage_def on_newRound_def on_timer_def on_drawing_def on_clearCanvas_def
        on_roundEnd_def on_connect_def commit_def split: option.splits)

lemma canvas_on_Game_receive_all: "canvas_on_Game st \<Longrightarrow> canvas_on_Game (receive_all evs st)"
  unfolding receive_all_def
  by (induction evs arbitrary: st) (simp_all add: canvas_on_Game_receive)

lemma canvas_on_Game_user:
  "canvas_on_Game st \<Longrightarrow> canvas_on_Game (handleUsernameChange v st)"
  "canvas_on_Game st \<Longrightarrow> gameState st = Lobby \<Longrightarrow> canvas_on_Game (snd (handleJoinGame st))"
  "canvas_on_Game st \<Longrightarrow> gameState st = RoundEnd \<Longrightarrow> canvas_on_Game (snd (handleReadyForNext st))"
  "canvas_on_Game st \<Longrightarrow> canvas_on_Game (snd (handleDraw r d st))"
  "canvas_on_Game st \<Longrightarrow> canvas_on_Game (snd (handleClearCanvas r st))"
  "canvas_on_Game st \<Longrightarrow> canvas_on_Game (snd (handleSendMessage m st))"
  by (auto simp: canvas_on_Game_def handleUsernameChange_def handleJoinGame_def
        handleReadyForNext_def handleDraw_def handleClearCanvas_def handleSendMessage_def
        canvas_invoke_def split: option.splits)

text \<open>
  The example states are reached from the start by events and user actions.
\<close>

lemma alice_lobby_reached:
  "alice_lobby =
     handleUsernameChange [0x20, 0x41, 0x6C, 0x20, 0x42, 0xA0, 0x9]
       (receive (Connect (js ''id-a'')) started)"
  by (simp add: alice_lobby_def started_def initial_def handleUsernameChange_def on_connect_def)

lemma alice_waiting_reached:
  "alice_waiting =
     receive (UpdatePlayers [alice, bob])
       (snd (handleJoinGame
          (handleUsernameChange (js ''Alice'') (receive (Connect (js ''id-a'')) started))))"
  by (simp add: alice_waiting_def started_def initial_def handleUsernameChange_def
        on_connect_def handleJoinGame_def on_updatePlayers_def trim_def is_whitespace_def js_def)

lemma alice_round_end_reached: "alice_round_end = receive (RoundEndEv bob_wins) alice_waiting"
  by (simp add: alice_round_end_def alice_waiting_def initial_def bob_wins_def on_roundEnd_def
        commit_def)


text \<open>
  After an event that is followed by a render, the state of the last render is the
  current one; after any other event it is what it was.
\<close>

lemma client_receive_rendered:
  "rendered (client_receive ev c) =
     (if rerenders ev (current c) then current (client_receive ev c) else rendered c)"
  by (simp add: client_receive_def)

text \<open>
  The draw handler and the clear handler follow the \<open>isDrawer\<close> of the last render: the
  stroke is sent unchanged, and the canvas cleared and \<open>clearCanvas\<close> sent, exactly when it
  holds. Straight after a render that is the comparison of the socket's id with the
  current drawer id.
\<close>

lemma handleDraw_by_rendered:
  "handleDraw r d st = (if isDrawer r then [Drawing d] else [], st)"
  using isDrawer_socket[of r] by (auto simp: handleDraw_def)

lemma handleClearCanvas_by_rendered:
  "handleClearCanvas r st =
     (if isDrawer r
      then ([ClearCanvas], st\<lparr>canvasRef := canvas_invoke Clear (canvasRef st)\<rparr>)
      else ([], st))"
  using isDrawer_socket[of r] by (auto simp: handleClearCanvas_def emit_opt_def)

lemma alice_reconnected_states:
  "rendered alice_reconnected =
     receive_all [Connect (js ''id-a''), UpdatePlayers [alice, bob], NewRound alice_draws] started"
  "current alice_reconnected =
     receive (Connect (js ''id-c'')) (rendered alice_reconnected)"
  by (simp_all add: alice_reconnected_def client_receive_all_def client_receive_def
        client_start_def receive_all_def)

section \<open>Drawing\<close>

text \<open>
  C1. The claim fails after a reconnection. Alice's client has rendered a round in which
  she draws; the socket then reconnects under the new id \<open>id-c\<close>, which sets no state
  variable, so no render follows and the draw handler still holds the \<open>isDrawer\<close> of the
  last render. The socket's id now differs from the current drawer id (a render of the
  current state would not make her the drawer), yet the handler emits the stroke.
\<close>

theorem handleDraw_emits_after_reconnect:
  "isDrawer (rendered alice_reconnected) \<and>
   own_id (current alice_reconnected) = Some (js ''id-c'') \<and>
   currentDrawerId (current alice_reconnected) = Some (js ''id-a'') \<and>
   js ''id-c'' \<noteq> js ''id-a'' \<and>
   \<not> isDrawer (current alice_reconnected) \<and>
   handleDraw (rendered alice_reconnected) stroke (current alice_reconnected) =
     ([Drawing stroke], current alice_reconnected)"
  by (simp add: alice_reconnected_states receive_all_def handleDraw_def isDrawer_def own_id_def
        on_connect_def on_updatePlayers_def on_newRound_def commit_def started_def initial_def
        alice_draws_def js_def)

section \<open>Ready for the next round\<close>

text \<open>
  C2, as the code has it. The handler of the next-round button emits one
  \<open>readyForNextRound\<close> message (when there is a socket), clears the round result and sets
  the local phase to Waiting at once, whatever the phase was and whoever else is in the
  player list.
\<close>

theorem handleReadyForNext_moves_to_Waiting:
  "handleReadyForNext st =
     (case socket st of None \<Rightarrow> [] | Some s \<Rightarrow> [ReadyForNextRound],
      st\<lparr>roundResult := None, gameState := Waiting\<rparr>) \<and>
   gameState (snd (handleReadyForNext st)) = Waiting \<and>
   roundResult (snd (handleReadyForNext st)) = None \<and>
   players (snd (handleReadyForNext st)) = players st"
  by (simp add: handleReadyForNext_def emit_opt_def)

text \<open>
  C2 as stated fails for the local phase: with Alice and Bob in the room and the round
  over, Alice's signal alone (the only message emitted, no event received) leaves her
  client in Waiting.
\<close>

theorem ready_alone_moves_to_Waiting_counterexample:
  "gameState alice_round_end = RoundEnd \<and>
   players alice_round_end = [alice, bob] \<and>
   fst (handleReadyForNext alice_round_end) = [ReadyForNextRound] \<and>
   gameState (snd (handleReadyForNext alice_round_end)) = Waiting"
  by (simp add: handleReadyForNext_def emit_opt_def alice_round_end_def alice_waiting_def
        initial_def)

section \<open>The word of a round\<close>

text \<open>
  C3, as the code has it. On every \<open>newRound\<close> event the client enters the Game phase,
  stores the word of the payload as it is and shows exactly that word, whether or not
  the client is the drawer; the word shown is empty only when the word received is.
\<close>

theorem newRound_word_stored_as_received:
  "gameState (receive (NewRound p) st) = Game \<and>
   currentDrawerId (receive (NewRound p) st) = nr_drawerId p \<and>
   currentWord (receive (NewRound p) st) = nr_word p \<and>
   shown_word (renderContent (receive (NewRound p) st)) = Some (nr_word p)"
  by (simp add: on_newRound_def commit_def renderContent_def)

text \<open>
  C3 as stated fails: Alice is not the drawer of the round Bob draws, and a payload that
  carries the word \<open>apple\<close> makes her client store and show it.
\<close>

theorem newRound_word_shown_to_guesser_counterexample:
  "\<not> isDrawer (receive (NewRound bob_draws) alice_waiting) \<and>
   gameState (receive (NewRound bob_draws) alice_waiting) = Game \<and>
   currentWord (receive (NewRound bob_draws) alice_waiting) = js ''apple'' \<and>
   shown_word (renderContent (receive (NewRound bob_draws) alice_waiting)) = Some (js ''apple'') \<and>
   js ''apple'' \<noteq> []"
  by (simp add: on_newRound_def commit_def renderContent_def isDrawer_def own_id_def bob_draws_def
        alice_waiting_def initial_def js_def)

section \<open>Clearing the canvas\<close>




text \<open>
  C6. The claim fails after a reconnection, as C1 does. Alice's client has rendered a round
  in which she draws, so the Game screen shows her the drawing tools; the socket then
  reconnects under a new id and no render follows. Her socket's id now differs from the
  current drawer id, yet the clear button still calls \<open>clear\<close> on her canvas and emits
  \<open>clearCanvas\<close>.
\<close>

theorem handleClearCanvas_clears_after_reconnect:
  "gameState (rendered alice_reconnected) = Game \<and>
   shown_tools (renderContent (rendered alice_reconnected)) \<noteq> None \<and>
   own_id (current alice_reconnected) \<noteq> currentDrawerId (current alice_reconnected) \<and>
   \<not> isDrawer (current alice_reconnected) \<and>
   canvasRef (current alice_reconnected) = Some [] \<and>
   handleClearCanvas (rendered alice_reconnected) (current alice_reconnected) =
     ([ClearCanvas], (current alice_reconnected)\<lparr>canvasRef := Some [Clear]\<rparr>)"
  by (simp add: alice_reconnected_states receive_all_def handleClearCanvas_def emit_opt_def
        renderContent_def isDrawer_def own_id_def canvas_invoke_def on_connect_def
        on_updatePlayers_def on_newRound_def commit_def started_def initial_def alice_draws_def
        js_def)

section \<open>Joining\<close>

text \<open>
  C5. The join handler emits \<open>joinGame\<close> with the trimmed username and sets the phase to
  Waiting exactly when the trimmed username is not empty and there is a socket;
  otherwise it emits nothing and leaves the state as it is. The trimmed username is not
  empty exactly when the username has a code unit that is not white space, and then it
  neither begins nor ends with white space.
\<close>

theorem handleJoinGame_emits_iff_trimmed_nonempty:
  "handleJoinGame st =
     (if trim (username st) \<noteq> [] \<and> socket st \<noteq> None
      then ([JoinGame (trim (username st))], st\<lparr>gameState := Waiting\<rparr>)
      else ([], st)) \<and>
   (fst (handleJoinGame st) \<noteq> [] \<longleftrightarrow> trim (username st) \<noteq> [] \<and> socket st \<noteq> None) \<and>
   (trim (username st) \<noteq> [] \<longleftrightarrow> (\<exists>c\<in>set (username st). \<not> is_whitespace c)) \<and>
   (trim (username st) = [] \<or>
      \<not> is_whitespace (hd (trim (username st))) \<and> \<not> is_whitespace (last (trim (username st))))"
proof -
  have "trim (username st) \<noteq> [] \<longleftrightarrow> (\<exists>c\<in>set (username st). \<not> is_whitespace c)"
    using trim_Nil_iff[of "username st"] by blast
  moreover have "trim (username st) = [] \<or>
      \<not> is_whitespace (hd (trim (username st))) \<and> \<not> is_whitespace (last (trim (username st)))"
    using trim_ends[of "username st"] by blast
  moreover have "handleJoinGame st =
     (if trim (username st) \<noteq> [] \<and> socket st \<noteq> None
      then ([JoinGame (trim (username st))], st\<lparr>gameState := Waiting\<rparr>)
      else ([], st))"
    by (simp add: handleJoinGame_def)
  moreover have "fst (handleJoinGame st) \<noteq> [] \<longleftrightarrow> trim (username st) \<noteq> [] \<and> socket st \<noteq> None"
    by (simp add: handleJoinGame_def)
  ultimately show ?thesis by blast
qed

text \<open>
  Alice's name is sent without the blanks around it; a name of blanks only is not sent,
  and nothing is sent without a socket.
\<close>

theorem handleJoinGame_emits_iff_trimmed_nonempty_witness:
  "handleJoinGame alice_lobby =
     ([JoinGame [0x41, 0x6C, 0x20, 0x42]], alice_lobby\<lparr>gameState := Waiting\<rparr>) \<and>
   handleJoinGame (alice_lobby\<lparr>username := [0x20, 0x9, 0x3000]\<rparr>) =
     ([], alice_lobby\<lparr>username := [0x20, 0x9, 0x3000]\<rparr>) \<and>
   handleJoinGame (alice_lobby\<lparr>socket := None\<rparr>) = ([], alice_lobby\<lparr>socket := None\<rparr>)"
proof -
  have t1: "trim (username alice_lobby) = [0x41, 0x6C, 0x20, 0x42]"
    by (simp add: alice_lobby_def trim_def is_whitespace_def)
  have t2: "trim [0x20, 0x9, 0x3000] = []"
    by (simp add: trim_def is_whitespace_def)
  have s: "socket alice_lobby \<noteq> None"
    by (simp add: alice_lobby_def)
  from handleJoinGame_emits_iff_trimmed_nonempty[of alice_lobby]
       handleJoinGame_emits_iff_trimmed_nonempty[of "alice_lobby\<lparr>username := [0x20, 0x9, 0x3000]\<rparr>"]
       handleJoinGame_emits_iff_trimmed_nonempty[of "alice_lobby\<lparr>socket := None\<rparr>"]
       t1 t2 s
  show ?thesis by simp
qed

section \<open>The end of a round\<close>

text \<open>
  C7. On a \<open>roundEnd\<close> event the phase becomes RoundEnd and the payload is stored as
  the round result; the screen then rendered is the RoundEnd screen, and the word it
  shows is the word of the payload.
\<close>

theorem roundEnd_shows_received_word:
  "gameState (receive (RoundEndEv r) st) = RoundEnd \<and>
   roundResult (receive (RoundEndEv r) st) = Some r \<and>
   renderContent (receive (RoundEndEv r) st) =
     RoundEndView (map_option player_username (rr_winner r)) (Some (rr_word r)) (own_score st) \<and>
   shown_word (renderContent (receive (RoundEndEv r) st)) = Some (rr_word r)"
  by (simp add: on_roundEnd_def commit_def renderContent_def own_score_def own_id_def split: option.splits)

section \<open>Chat\<close>

text \<open>
  C8. A \<open>chatMessage\<close> event appends its message at the end of the message list. After
  any sequence of chat messages the list is the old list followed by the messages in
  the order of arrival: the old messages keep their places, and the Game screen shows
  the list in that order.
\<close>

theorem chatMessage_appended_in_arrival_order:
  "messages (receive (ChatMessageEv m) st) = messages st @ [m] \<and>
   messages (receive_all (map ChatMessageEv ms) st) = messages st @ ms \<and>
   take (length (messages st)) (messages (receive_all (map ChatMessageEv ms) st)) = messages st \<and>
   shown_chat (renderContent (receive_all (map ChatMessageEv ms) st)) =
     (if gameState st = Game then messages st @ ms else [])"
  by (cases "gameState st") (simp_all add: receive_all_chat on_chatMessage_def renderContent_def)

text \<open>
  C9. The claim fails in the text of the announcement. Alice's client knows the players
  Alice and Bob, and a round starts in which Bob draws. The message list becomes one
  message, authored by \<open>System\<close> and flagged as a system message, but its text is
  \<open>undefined\<close> followed by the fixed text: the handler looks the drawer up in the player
  list of the first render, not in the current one, where it would find \<open>Bob\<close>.
\<close>

theorem newRound_announcement_names_nobody:
  "players alice_waiting = [alice, bob] \<and>
   nr_drawerId bob_draws = Some (player_id bob) \<and>
   player_username bob = js ''Bob'' \<and>
   drawer_name (players alice_waiting) (nr_drawerId bob_draws) = js ''Bob'' \<and>
   messages (receive (NewRound bob_draws) alice_waiting) =
     [\<lparr> msg_username = js ''System'',
        msg_message =
          [0x75, 0x6E, 0x64, 0x65, 0x66, 0x69, 0x6E, 0x65, 0x64, 0x20, 0x72, 0x259, 0x73, 0x6D,
           0x20, 0xE7, 0x259, 0x6B, 0x69, 0x72, 0x2E, 0x2E, 0x2E],
        isSystemMessage = Some True,
        isCorrectGuess = None \<rparr>] \<and>
   js ''undefined'' @ announcement_text =
     [0x75, 0x6E, 0x64, 0x65, 0x66, 0x69, 0x6E, 0x65, 0x64, 0x20, 0x72, 0x259, 0x73, 0x6D,
      0x20, 0xE7, 0x259, 0x6B, 0x69, 0x72, 0x2E, 0x2E, 0x2E] \<and>
   js ''undefined'' \<noteq> js ''Bob''"
  by (simp add: on_newRound_def commit_def announcement_def announcement_text_def
        drawer_name_def alice_waiting_def initial_def bob_draws_def alice_def bob_def js_def)

section \<open>The timer event\<close>

text \<open>
  C10. A \<open>timer\<close> event changes the remaining time only: for every integer payload the
  state after the handler is the state before with \<open>timeLeft\<close> set to the payload, so the
  player list, the message list, the phase, the current word, the drawer id and the round
  result (and every other component) are as before.
\<close>

theorem timer_changes_only_timeLeft:
  "receive (Timer t) st = st\<lparr>timeLeft := t\<rparr> \<and>
   timeLeft (receive (Timer t) st) = t \<and>
   players (receive (Timer t) st) = players st \<and>
   messages (receive (Timer t) st) = messages st \<and>
   gameState (receive (Timer t) st) = gameState st \<and>
   currentWord (receive (Timer t) st) = currentWord st \<and>
   currentDrawerId (receive (Timer t) st) = currentDrawerId st \<and>
   roundResult (receive (Timer t) st) = roundResult st"
  by (simp add: on_timer_def)

end
